theory Spec2Isabelle
  imports Main
begin

section \<open>JavaScript strings\<close>

text \<open>
  Strings are character lists. \<open>str_includes s sub\<close> is \<^verbatim>\<open>s.includes(sub)\<close>
  (a case-sensitive search for a contiguous occurrence) and \<open>join sep xs\<close> is
  \<^verbatim>\<open>xs.join(sep)\<close>. \<open>truthy\<close> is the truth value JavaScript gives a string:
  only the empty string is falsy.
\<close>

fun startsWith :: "string \<Rightarrow> string \<Rightarrow> bool" where
  "startsWith s [] = True"
| "startsWith [] (c # cs) = False"
| "startsWith (d # ds) (c # cs) = (d = c \<and> startsWith ds cs)"

fun str_includes :: "string \<Rightarrow> string \<Rightarrow> bool" where
  "str_includes [] sub = (sub = [])"
| "str_includes (d # ds) sub = (startsWith (d # ds) sub \<or> str_includes ds sub)"

fun join :: "string \<Rightarrow> string list \<Rightarrow> string" where
  "join sep [] = []"
| "join sep [x] = x"
| "join sep (x # y # ys) = x @ sep @ join sep (y # ys)"

definition truthy :: "string \<Rightarrow> bool" where
  "truthy s = (s \<noteq> [])"

text \<open>
  \<open>orElse s d\<close> is \<^verbatim>\<open>s || d\<close> on strings. \<open>number_str\<close> is the decimal text a
  template literal gives an integer of magnitude below \<open>10 ^ 21\<close>; from there on
  JavaScript prints a number in exponent form, which \<open>number_str\<close> does not follow, so
  the properties below use it under that bound only. \<open>template_str\<close> is the text a
  template literal gives a property that may be absent (\<^verbatim>\<open>undefined\<close>).
\<close>

definition orElse :: "string \<Rightarrow> string \<Rightarrow> string" where
  "orElse s d = (if truthy s then s else d)"






section \<open>The retry mechanism of \<^verbatim>\<open>client/src/API/axios.js\<close>\<close>

text \<open>
  \<^verbatim>\<open>retryRequest(requestFn, maxRetries = 3, delay = 1000)\<close>. What the operation
  throws is an error object: a record with the optional \<^verbatim>\<open>message\<close> the code reads
  through \<^verbatim>\<open>error.message?.includes\<close>. The numbers \<^verbatim>\<open>maxRetries\<close> and \<^verbatim>\<open>delay\<close>
  are integers. The value a rejected call carries is a
  \<open>js_value\<close>: the variable \<^verbatim>\<open>lastError\<close> starts out as \<^verbatim>\<open>undefined\<close>.

  The wrapped operation is a state transformer: each invocation sees the state the
  previous one left and either throws an error (\<open>Inl\<close>) or returns (\<open>Inr\<close>).
  The result of a run records the outcome, the state of the operation after the last
  invocation, the number of invocations and the list of the delays slept, in order.
\<close>

record js_error =
  message :: "string option"

datatype js_value = Undefined | ErrorObj js_error

record ('a, 's) retry_run =
  outcome :: "js_value + 'a"
  opState :: 's
  invocations :: nat
  sleeps :: "int list"

definition nonRetryable :: "js_error \<Rightarrow> bool" where
  "nonRetryable e =
     (case message e of
        None \<Rightarrow> False
      | Some m \<Rightarrow> str_includes m ''Authentication'' \<or> str_includes m ''Access denied''
                 \<or> str_includes m ''validation'')"

function retryLoop ::
  "('s \<Rightarrow> (js_error + 'a) \<times> 's) \<Rightarrow> int \<Rightarrow> int \<Rightarrow> int \<Rightarrow> js_value \<Rightarrow> 's \<Rightarrow> nat \<Rightarrow> int list
     \<Rightarrow> ('a, 's) retry_run" where
  "retryLoop requestFn maxRetries delay attempt lastError st n zs =
     (if attempt \<le> maxRetries then
        (case fst (requestFn st) of
           Inr v \<Rightarrow>
             \<lparr>outcome = Inr v, opState = snd (requestFn st), invocations = Suc n, sleeps = zs\<rparr>
         | Inl e \<Rightarrow>
             if nonRetryable e then
               \<lparr>outcome = Inl (ErrorObj e), opState = snd (requestFn st),
                invocations = Suc n, sleeps = zs\<rparr>
             else if attempt < maxRetries then
               retryLoop requestFn maxRetries delay (attempt + 1) (ErrorObj e)
                 (snd (requestFn st)) (Suc n) (zs @ [delay * attempt])
             else
               retryLoop requestFn maxRetries delay (attempt + 1) (ErrorObj e)
                 (snd (requestFn st)) (Suc n) zs)
      else \<lparr>outcome = Inl lastError, opState = st, invocations = n, sleeps = zs\<rparr>)"
  by pat_completeness auto
termination
  by (relation "measure (\<lambda>(requestFn, maxRetries, delay, attempt, lastError, st, n, zs).
        nat (maxRetries + 1 - attempt))") auto

declare retryLoop.simps [simp del]

definition retryRequest ::
  "('s \<Rightarrow> (js_error + 'a) \<times> 's) \<Rightarrow> int \<Rightarrow> int \<Rightarrow> 's \<Rightarrow> ('a, 's) retry_run" where
  "retryRequest requestFn maxRetries delay st =
     retryLoop requestFn maxRetries delay 1 Undefined st 0 []"

section \<open>The response-error handler of \<^verbatim>\<open>client/src/API/axios.js\<close>\<close>

text \<open>
  The handler reads from the rejected exchange: \<^verbatim>\<open>error.status\<close> and
  \<^verbatim>\<open>error.retryAfter\<close> (properties of the error object itself, as the request
  interceptor sets them on its rate-limit error), \<^verbatim>\<open>error.response\<close> with its
  \<^verbatim>\<open>status\<close>, \<^verbatim>\<open>data.errors\<close> and \<^verbatim>\<open>data.message\<close>, and \<^verbatim>\<open>config.url\<close>.
  \<^verbatim>\<open>data.errors\<close> is an object from field names to lists of messages, kept as an
  association list in the order \<^verbatim>\<open>Object.values\<close> enumerates it.

  The environment it acts on: \<^verbatim>\<open>sessionManager.currentSession\<close>, the two items of
  \<^verbatim>\<open>localStorage\<close>, \<^verbatim>\<open>window.location\<close> (the current pathname, and the value
  assigned to \<^verbatim>\<open>href\<close> if any), the security-event log and the number of CSRF
  tokens generated. The development-mode console output is not modelled.
\<close>

record local_storage =
  tokenItem :: "string option"
  refreshTokenItem :: "string option"








definition removeItems :: "local_storage \<Rightarrow> local_storage" where
  "removeItems st = st\<lparr>tokenItem := None, refreshTokenItem := None\<rparr>"





section \<open>Registration in the hook \<^verbatim>\<open>useAuth\<close>\<close>

text \<open>
  \<^verbatim>\<open>useAuth.register(username, email, password, confirmPassword)\<close>. The helpers
  \<^verbatim>\<open>isValidEmail\<close> and \<^verbatim>\<open>validatePassword\<close> come from \<^verbatim>\<open>client/src/utils/auth\<close>,
  which the sources at hand do not hold: they are parameters of the model, the second
  returning the record \<^verbatim>\<open>{isValid, errors}\<close> the code reads. The context's
  \<^verbatim>\<open>register\<close>, which performs the network call, is a parameter too; the run
  counts its invocations.

  Every \<^verbatim>\<open>throw\<close> of the body is caught by the one \<^verbatim>\<open>catch\<close>, which returns
  \<^verbatim>\<open>{success: false, error: error.message || 'Registration failed'}\<close>.
\<close>

record password_validation =
  isValid :: bool
  errors :: "string list"

datatype auth_result = Success | Failure string

record 'c register_run =
  regResult :: auth_result
  regContext :: 'c
  regNetworkCalls :: nat

definition caught :: "string \<Rightarrow> 'c \<Rightarrow> nat \<Rightarrow> 'c register_run" where
  "caught msg c k =
     \<lparr>regResult = Failure (orElse msg ''Registration failed''), regContext = c, regNetworkCalls = k\<rparr>"

definition register ::
  "(string \<Rightarrow> bool) \<Rightarrow> (string \<Rightarrow> password_validation)
     \<Rightarrow> (string \<Rightarrow> string \<Rightarrow> string \<Rightarrow> 'c \<Rightarrow> auth_result \<times> 'c)
     \<Rightarrow> string \<Rightarrow> string \<Rightarrow> string \<Rightarrow> string \<Rightarrow> 'c \<Rightarrow> 'c register_run" where
  "register isValidEmail validatePassword contextRegister uname email password confirmPassword c =
     (if \<not> truthy uname \<or> \<not> truthy email \<or> \<not> truthy password \<or> \<not> truthy confirmPassword then
        caught ''All fields are required'' c 0
      else if \<not> isValidEmail email then
        caught ''Please enter a valid email address'' c 0
      else if \<not> isValid (validatePassword password) then
        caught (join '', '' (errors (validatePassword password))) c 0
      else if password \<noteq> confirmPassword then
        caught ''Passwords do not match'' c 0
      else if length uname < 3 then
        caught ''Username must be at least 3 characters long'' c 0
      else
        (case contextRegister uname email password c of
           (Success, c') \<Rightarrow> \<lparr>regResult = Success, regContext = c', regNetworkCalls = 1\<rparr>
         | (Failure e, c') \<Rightarrow> caught e c' 1))"

section \<open>The session lifecycle of \<^verbatim>\<open>client/src/context/UserProvider.jsx\<close>\<close>

text \<open>
  The provider's state: the React state variables \<^verbatim>\<open>user\<close>, \<^verbatim>\<open>sessionExpiry\<close>,
  \<^verbatim>\<open>lastActivity\<close> and \<^verbatim>\<open>isRefreshing\<close>, the three refs, \<^verbatim>\<open>localStorage\<close>, and
  the part of the browser the code acts on: the table of pending timers (identifier,
  callback, time at which it fires), the promises created by \<^verbatim>\<open>refreshToken\<close> with
  the outcome of those already settled, and the number of calls of
  \<^verbatim>\<open>axiosInstance.post('/auth/refresh')\<close>. Times are in milliseconds; every operation
  takes the value of \<^verbatim>\<open>Date.now()\<close> at its call as the argument \<open>now\<close>. Timer
  identifiers are positive in a browser, so a ref that holds one is truthy. The
  variable \<^verbatim>\<open>loading\<close> is not modelled.
\<close>

record user_record =
  userId :: nat
  userName :: string
  role :: string
  permissions :: "string list"

datatype timer_cb = RefreshCb | SessionTimeoutCb

record provider =
  user :: "user_record option"
  sessionExpiry :: "int option"
  lastActivity :: int
  isRefreshing :: bool
  refreshTimeoutRef :: "nat option"
  activityTimeoutRef :: "nat option"
  refreshPromiseRef :: "nat option"
  localStorage :: local_storage
  timers :: "(nat \<times> timer_cb \<times> int) list"
  nextTimerId :: nat
  nextPromiseId :: nat
  settled :: "(nat \<times> auth_result) list"
  refreshRequests :: nat

text \<open>The body of a successful response of the authentication endpoints.\<close>

record auth_response =
  respToken :: string
  respRefreshToken :: "string option"
  respUser :: user_record
  expiresIn :: int

text \<open>
  The browser's \<^verbatim>\<open>setTimeout\<close> takes its delay as a signed 32-bit integer: the
  number given is reduced modulo \<open>2 ^ 32\<close> into the range from \<open>- 2 ^ 31\<close> up to
  \<open>2 ^ 31 - 1\<close> (\<open>toInt32\<close>), and a negative result counts as 0. A delay from
  2147483648 up to 4294967295 ms therefore fires at once, and beyond that the delay
  wraps around again. \<open>timerDelay ms\<close> is the delay in effect, and a timer set at time
  \<open>now\<close> fires at \<open>now + timerDelay ms\<close>.
\<close>

definition toInt32 :: "int \<Rightarrow> int" where
  "toInt32 x = (x + 2147483648) mod 4294967296 - 2147483648"

definition timerDelay :: "int \<Rightarrow> int" where
  "timerDelay ms = max (toInt32 ms) 0"

definition setTimeout :: "timer_cb \<Rightarrow> int \<Rightarrow> int \<Rightarrow> provider \<Rightarrow> nat \<times> provider" where
  "setTimeout cb ms now s =
     (nextTimerId s,
      s\<lparr>timers := timers s @ [(nextTimerId s, cb, now + timerDelay ms)],
        nextTimerId := Suc (nextTimerId s)\<rparr>)"

definition clearTimeout :: "nat \<Rightarrow> provider \<Rightarrow> provider" where
  "clearTimeout i s = s\<lparr>timers := filter (\<lambda>t. fst t \<noteq> i) (timers s)\<rparr>"

definition updateActivity :: "int \<Rightarrow> provider \<Rightarrow> provider" where
  "updateActivity now s = s\<lparr>lastActivity := now\<rparr>"

definition scheduleTokenRefresh :: "int \<Rightarrow> int \<Rightarrow> provider \<Rightarrow> provider" where
  "scheduleTokenRefresh now delay s =
     (let s1 = (case refreshTimeoutRef s of None \<Rightarrow> s | Some i \<Rightarrow> clearTimeout i s);
          (i, s2) = setTimeout RefreshCb (max (delay - 60000) 0) now s1
      in s2\<lparr>refreshTimeoutRef := Some i\<rparr>)"

definition scheduleActivityTimeout :: "int \<Rightarrow> provider \<Rightarrow> provider" where
  "scheduleActivityTimeout now s =
     (let s1 = (case activityTimeoutRef s of None \<Rightarrow> s | Some i \<Rightarrow> clearTimeout i s);
          (i, s2) = setTimeout SessionTimeoutCb (30 * 60 * 1000) now s1
      in s2\<lparr>activityTimeoutRef := Some i\<rparr>)"

definition handleLogout :: "provider \<Rightarrow> provider" where
  "handleLogout s =
     (let s1 = s\<lparr>localStorage := removeItems (localStorage s), user := None, sessionExpiry := None\<rparr>;
          s2 = (case refreshTimeoutRef s1 of None \<Rightarrow> s1
                | Some i \<Rightarrow> (clearTimeout i s1)\<lparr>refreshTimeoutRef := None\<rparr>);
          s3 = (case activityTimeoutRef s2 of None \<Rightarrow> s2
                | Some i \<Rightarrow> (clearTimeout i s2)\<lparr>activityTimeoutRef := None\<rparr>)
      in s3)"

definition logout :: "provider \<Rightarrow> provider" where
  "logout s = handleLogout s"

text \<open>
  \<^verbatim>\<open>if (refreshToken) localStorage.setItem('refreshToken', refreshToken)\<close>: an absent
  or empty refresh token is falsy and leaves the stored item as it is.
\<close>

definition storeTokens :: "string \<Rightarrow> string option \<Rightarrow> local_storage \<Rightarrow> local_storage" where
  "storeTokens tok rtok st =
     (let st1 = st\<lparr>tokenItem := Some tok\<rparr>
      in case rtok of
           None \<Rightarrow> st1
         | Some r \<Rightarrow> if truthy r then st1\<lparr>refreshTokenItem := Some r\<rparr> else st1)"

definition loginWithTokens ::
  "int \<Rightarrow> string \<Rightarrow> string option \<Rightarrow> user_record \<Rightarrow> provider \<Rightarrow> auth_result \<times> provider" where
  "loginWithTokens now tok rtok userData s =
     (let s1 = s\<lparr>localStorage := storeTokens tok rtok (localStorage s)\<rparr>;
          s2 = s1\<lparr>user := Some userData, sessionExpiry := Some (now + 15 * 60 * 1000)\<rparr>;
          s3 = scheduleActivityTimeout now s2
      in (Success, s3))"

text \<open>
  \<^verbatim>\<open>login\<close>, \<^verbatim>\<open>register\<close> and \<^verbatim>\<open>initializeAuth\<close> await one request; the model
  takes its result: \<open>Inr\<close> the response body, \<open>Inl\<close> the
  \<^verbatim>\<open>error.response?.data?.message\<close> of a rejected request.
\<close>

definition failureMessage :: "string option \<Rightarrow> string \<Rightarrow> string" where
  "failureMessage m d = (case m of None \<Rightarrow> d | Some t \<Rightarrow> orElse t d)"

definition login :: "int \<Rightarrow> string option + auth_response \<Rightarrow> provider \<Rightarrow> auth_result \<times> provider" where
  "login now result s =
     (case result of
        Inl m \<Rightarrow> (Failure (failureMessage m ''Login failed''), s)
      | Inr r \<Rightarrow>
          (let s1 = s\<lparr>localStorage := storeTokens (respToken r) (respRefreshToken r) (localStorage s)\<rparr>;
               s2 = s1\<lparr>user := Some (respUser r), sessionExpiry := Some (now + expiresIn r * 1000)\<rparr>;
               s3 = scheduleTokenRefresh now (expiresIn r * 1000) s2;
               s4 = scheduleActivityTimeout now s3
           in (Success, s4)))"

definition contextRegister :: "int \<Rightarrow> string option + auth_response \<Rightarrow> provider \<Rightarrow> auth_result \<times> provider" where
  "contextRegister now result s =
     (case result of
        Inl m \<Rightarrow> (Failure (failureMessage m ''Registration failed''), s)
      | Inr r \<Rightarrow>
          (let s1 = s\<lparr>localStorage := (localStorage s)\<lparr>tokenItem := Some (respToken r)\<rparr>\<rparr>;
               s2 = s1\<lparr>user := Some (respUser r), sessionExpiry := Some (now + expiresIn r * 1000)\<rparr>;
               s3 = scheduleTokenRefresh now (expiresIn r * 1000) s2;
               s4 = scheduleActivityTimeout now s3
           in (Success, s4)))"

text \<open>
  \<^verbatim>\<open>initializeAuth\<close>, the effect run when the provider mounts: without a stored token
  it does nothing, and otherwise it awaits \<^verbatim>\<open>GET /auth/verify\<close>.
\<close>

definition initializeAuth :: "int \<Rightarrow> string option + auth_response \<Rightarrow> provider \<Rightarrow> provider" where
  "initializeAuth now result s =
     (case tokenItem (localStorage s) of
        None \<Rightarrow> s
      | Some tok \<Rightarrow>
          if \<not> truthy tok then s
          else (case result of
                  Inl m \<Rightarrow> handleLogout s
                | Inr r \<Rightarrow>
                    (let s1 = s\<lparr>user := Some (respUser r),
                                  sessionExpiry := Some (now + expiresIn r * 1000)\<rparr>;
                         s2 = scheduleTokenRefresh now (expiresIn r * 1000) s1
                     in scheduleActivityTimeout now s2)))"

text \<open>
  The cleanup of that effect clears the timers the two refs hold and leaves the refs as
  they are. The effect depends on \<^verbatim>\<open>scheduleTokenRefresh\<close>, which is created anew
  whenever \<^verbatim>\<open>refreshToken\<close> is, that is whenever a render sees another value of
  \<^verbatim>\<open>isRefreshing\<close>: so the cleanup runs not only at unmount but at the commit after
  a refresh has started and at the commit after it has ended, each time followed by
  another run of \<^verbatim>\<open>initializeAuth\<close>.
\<close>

definition mountEffectCleanup :: "provider \<Rightarrow> provider" where
  "mountEffectCleanup s =
     (let s1 = (case refreshTimeoutRef s of None \<Rightarrow> s | Some i \<Rightarrow> clearTimeout i s)
      in case activityTimeoutRef s1 of None \<Rightarrow> s1 | Some i \<Rightarrow> clearTimeout i s1)"

text \<open>The listener \<^verbatim>\<open>handleActivity\<close> registered for the five DOM events.\<close>

definition handleActivity :: "int \<Rightarrow> provider \<Rightarrow> provider" where
  "handleActivity now s = scheduleActivityTimeout now (updateActivity now s)"

text \<open>
  \<^verbatim>\<open>refreshToken\<close> is created by \<^verbatim>\<open>useCallback(..., [isRefreshing])\<close>: the
  \<^verbatim>\<open>isRefreshing\<close> its guard reads is the value the variable had at the render that
  created the function, not the value \<^verbatim>\<open>setIsRefreshing\<close> has written since. The
  model takes that captured value as the argument \<open>captured\<close>; \<open>renderedRefresh s\<close>
  is the function a render in state \<open>s\<close> creates.

  The \<^verbatim>\<open>async\<close> body runs up to its \<^verbatim>\<open>await\<close> within the call. \<open>refreshToken\<close> is
  that part: it returns the promise handed to the caller. Without a stored token the
  body throws before the request, runs \<^verbatim>\<open>catch\<close> and \<^verbatim>\<open>finally\<close> at once and the
  promise is settled on return; the assignment to \<^verbatim>\<open>refreshPromiseRef.current\<close>
  after the body still takes place. \<open>refreshTokenResume\<close> is the rest of the body,
  run when the request of promise \<open>p\<close> completes with \<open>result\<close>.
\<close>

definition refreshToken :: "bool \<Rightarrow> provider \<Rightarrow> nat \<times> provider" where
  "refreshToken captured s =
     (if captured \<and> refreshPromiseRef s \<noteq> None then (the (refreshPromiseRef s), s)
      else
        (let p = nextPromiseId s;
             s1 = s\<lparr>nextPromiseId := Suc p, isRefreshing := True\<rparr>
         in if (case tokenItem (localStorage s1) of None \<Rightarrow> True | Some tok \<Rightarrow> \<not> truthy tok) then
              (let s2 = handleLogout s1;
                   s3 = s2\<lparr>isRefreshing := False, refreshPromiseRef := None,
                            settled := settled s2 @ [(p, Failure ''Session expired'')]\<rparr>
               in (p, s3\<lparr>refreshPromiseRef := Some p\<rparr>))
            else
              (p, s1\<lparr>refreshRequests := Suc (refreshRequests s1), refreshPromiseRef := Some p\<rparr>)))"

definition renderedRefresh :: "provider \<Rightarrow> provider \<Rightarrow> nat \<times> provider" where
  "renderedRefresh s = refreshToken (isRefreshing s)"

definition refreshTokenResume ::
  "nat \<Rightarrow> int \<Rightarrow> string option + auth_response \<Rightarrow> provider \<Rightarrow> provider" where
  "refreshTokenResume p now result s =
     (let (res, s1) =
            (case result of
               Inl m \<Rightarrow> (Failure ''Session expired'', handleLogout s)
             | Inr r \<Rightarrow>
                 (let t1 = s\<lparr>localStorage := (localStorage s)\<lparr>tokenItem := Some (respToken r)\<rparr>\<rparr>;
                      t2 = t1\<lparr>user := Some (respUser r),
                               sessionExpiry := Some (now + expiresIn r * 1000)\<rparr>
                  in (Success, scheduleTokenRefresh now (expiresIn r * 1000) t2)))
      in s1\<lparr>isRefreshing := False, refreshPromiseRef := None, settled := settled s1 @ [(p, res)]\<rparr>)"

text \<open>The provider as it is before anything has happened, at time \<open>now\<close>.\<close>

definition initialProvider :: "int \<Rightarrow> provider" where
  "initialProvider now =
     \<lparr>user = None, sessionExpiry = None, lastActivity = now, isRefreshing = False,
      refreshTimeoutRef = None, activityTimeoutRef = None, refreshPromiseRef = None,
      localStorage = \<lparr>tokenItem = None, refreshTokenItem = None\<rparr>,
      timers = [], nextTimerId = 1, nextPromiseId = 0, settled = [], refreshRequests = 0\<rparr>"

text \<open>
  \<open>pending cb s\<close> lists the times at which the pending timers with callback \<open>cb\<close>
  fire. \<open>tracked s\<close> is the invariant of the timer table: every pending timer is the
  one its ref holds (a refresh timer the one of \<^verbatim>\<open>refreshTimeoutRef\<close>, an inactivity
  timer the one of \<^verbatim>\<open>activityTimeoutRef\<close>), the identifiers the refs hold have been
  handed out already, and the two refs do not hold the same identifier.
\<close>

definition pending :: "timer_cb \<Rightarrow> provider \<Rightarrow> int list" where
  "pending cb s = map (\<lambda>t. snd (snd t)) (filter (\<lambda>t. fst (snd t) = cb) (timers s))"

definition trackedBy :: "provider \<Rightarrow> nat \<times> timer_cb \<times> int \<Rightarrow> bool" where
  "trackedBy s t =
     (case fst (snd t) of
        RefreshCb \<Rightarrow> refreshTimeoutRef s = Some (fst t)
      | SessionTimeoutCb \<Rightarrow> activityTimeoutRef s = Some (fst t))"

definition handedOut :: "provider \<Rightarrow> nat option \<Rightarrow> bool" where
  "handedOut s r = (case r of None \<Rightarrow> True | Some i \<Rightarrow> i < nextTimerId s)"

definition tracked :: "provider \<Rightarrow> bool" where
  "tracked s =
     (list_all (trackedBy s) (timers s) \<and> handedOut s (refreshTimeoutRef s) \<and>
      handedOut s (activityTimeoutRef s) \<and>
      (refreshTimeoutRef s = None \<or> refreshTimeoutRef s \<noteq> activityTimeoutRef s))"

text \<open>
  The states the provider can be in: it is mounted, and then each step is one of its
  operations, the cleanup of the mount effect, or the browser removing a timer that has
  fired (the callback of a fired timer is \<^verbatim>\<open>refreshToken\<close> or, for the inactivity
  timer, \<^verbatim>\<open>handleLogout\<close>).
\<close>

inductive reachable :: "provider \<Rightarrow> bool" where
  mount: "reachable (initialProvider now)"
| verified: "reachable s \<Longrightarrow> reachable (initializeAuth now result s)"
| signedIn: "reachable s \<Longrightarrow> reachable (snd (login now result s))"
| registered: "reachable s \<Longrightarrow> reachable (snd (contextRegister now result s))"
| oauth: "reachable s \<Longrightarrow> reachable (snd (loginWithTokens now tok rtok u s))"
| signedOut: "reachable s \<Longrightarrow> reachable (logout s)"
| recorded: "reachable s \<Longrightarrow> reachable (updateActivity now s)"
| active: "reachable s \<Longrightarrow> reachable (handleActivity now s)"
| refreshing: "reachable s \<Longrightarrow> reachable (snd (refreshToken captured s))"
| refreshed: "reachable s \<Longrightarrow> reachable (refreshTokenResume p now result s)"
| fired: "reachable s \<Longrightarrow> reachable (clearTimeout i s)"
| cleaned: "reachable s \<Longrightarrow> reachable (mountEffectCleanup s)"

text \<open>
  A concrete run used to evaluate the model: a user, a login response with
  \<^verbatim>\<open>expiresIn = 900\<close>, one for a token of 30 days (\<^verbatim>\<open>expiresIn = 2592000\<close>), one
  for a token of an hour, and the provider after the first login at time 0.
\<close>

definition sampleUser :: user_record where
  "sampleUser = \<lparr>userId = 7, userName = ''abebe'', role = ''user'', permissions = []\<rparr>"

definition sampleResponse :: auth_response where
  "sampleResponse =
     \<lparr>respToken = ''jwt-1'', respRefreshToken = Some ''r-1'', respUser = sampleUser,
      expiresIn = 900\<rparr>"

definition longLivedResponse :: auth_response where
  "longLivedResponse =
     \<lparr>respToken = ''jwt-30d'', respRefreshToken = Some ''r-30d'', respUser = sampleUser,
      expiresIn = 30 * 24 * 60 * 60\<rparr>"

definition hourResponse :: auth_response where
  "hourResponse =
     \<lparr>respToken = ''jwt-1h'', respRefreshToken = None, respUser = sampleUser,
      expiresIn = 3600\<rparr>"

definition activeProvider :: provider where
  "activeProvider = snd (login 0 (Inr sampleResponse) (initialProvider 0))"

text \<open>
  Three operations over a counter of their own invocations: one that fails twice with
  the interceptor's network-error message and then succeeds, one that always fails with
  the message of a 401, and one that always fails with the message of a server error.
\<close>

definition failTwice :: "nat \<Rightarrow> (js_error + string) \<times> nat" where
  "failTwice n =
     (if n < 2 then Inl \<lparr>message = Some ''Network error. Please check your connection.''\<rparr>
      else Inr ''ok'', Suc n)"

definition alwaysUnauthorized :: "nat \<Rightarrow> (js_error + string) \<times> nat" where
  "alwaysUnauthorized n = (Inl \<lparr>message = Some ''Authentication required''\<rparr>, Suc n)"

definition alwaysDown :: "nat \<Rightarrow> (js_error + string) \<times> nat" where
  "alwaysDown n = (Inl \<lparr>message = Some ''Server error. Please try again later.''\<rparr>, Suc n)"







text \<open>
  Stand-ins for the absent helpers of \<^verbatim>\<open>utils/auth\<close> and for the context's
  \<^verbatim>\<open>register\<close>, to evaluate the hook's \<^verbatim>\<open>register\<close> on: an email check that asks
  for an \<^verbatim>\<open>@\<close>, a password policy of two rules (eight characters, one digit) that
  reports every rule broken, and a network call that succeeds and counts itself.
\<close>

definition sampleIsValidEmail :: "string \<Rightarrow> bool" where
  "sampleIsValidEmail e = (CHR ''@'' \<in> set e)"

definition sampleValidatePassword :: "string \<Rightarrow> password_validation" where
  "sampleValidatePassword p =
     \<lparr>isValid = (8 \<le> length p \<and> (\<exists>c \<in> set p. c \<in> set ''0123456789'')),
      errors =
        (if length p < 8 then [''Password must be at least 8 characters long''] else []) @
        (if \<exists>c \<in> set p. c \<in> set ''0123456789'' then []
         else [''Password must contain at least one number''])\<rparr>"

definition sampleContextRegister :: "string \<Rightarrow> string \<Rightarrow> string \<Rightarrow> nat \<Rightarrow> auth_result \<times> nat" where
  "sampleContextRegister u e p n = (Success, Suc n)"

section \<open>Properties of the retry mechanism\<close>

lemma retryLoop_invocations_lower:
  "n \<le> invocations (retryLoop f m d a le st n zs)"
proof (induction f m d a le st n zs rule: retryLoop.induct)
  case (1 f m d a le st n zs)
  show ?case
    using "1.IH" 
    by (subst retryLoop.simps) (auto split: sum.splits intro: Suc_leD)
qed

lemma retryLoop_invocations_enter:
  "a \<le> m \<Longrightarrow> Suc n \<le> invocations (retryLoop f m d a le st n zs)"
  using retryLoop_invocations_lower[of "Suc n" f m d "a + 1" _ "snd (f st)"]
  by (subst retryLoop.simps) (auto split: sum.splits)

lemma retryLoop_invocations_upper:
  "invocations (retryLoop f m d a le st n zs) \<le> n + nat (m + 1 - a)"
proof (induction f m d a le st n zs rule: retryLoop.induct)
  case (1 f m d a le st n zs)
  show ?case
    using "1.IH" 
    by (subst retryLoop.simps) (auto split: sum.splits simp: nat_diff_distrib' nat_add_distrib)
qed

lemma retryLoop_sleeps:
  "sleeps (retryLoop f m d a le st n zs) =
     zs @ map (\<lambda>k. d * k) [a .. a + int (invocations (retryLoop f m d a le st n zs)) - int n - 2]"
proof (induction f m d a le st n zs rule: retryLoop.induct)
  case (1 f m d a le st n zs)
  show ?case
  proof (cases "a \<le> m")
    case False
    then show ?thesis by (simp add: retryLoop.simps)
  next
    case am: True
    show ?thesis
    proof (cases "fst (f st)")
      case (Inr v)
      with am show ?thesis by (simp add: retryLoop.simps)
    next
      case (Inl e)
      show ?thesis
      proof (cases "nonRetryable e")
        case True
        with am Inl show ?thesis by (simp add: retryLoop.simps)
      next
        case nr: False
        show ?thesis
        proof (cases "a < m")
          case True
          let ?r = "retryLoop f m d (a + 1) (ErrorObj e) (snd (f st)) (Suc n) (zs @ [d * a])"
          have eq: "retryLoop f m d a le st n zs = ?r"
            using am Inl nr True by (subst retryLoop.simps) simp
          have ih: "sleeps ?r = (zs @ [d * a]) @ map (\<lambda>k. d * k) [a + 1 .. a + 1 + int (invocations ?r) - int (Suc n) - 2]"
            using "1.IH"(1)[OF am Inl nr True] .
          have ge: "Suc (Suc n) \<le> invocations ?r"
            using True by (intro retryLoop_invocations_enter) simp
          then have "[a .. a + int (invocations ?r) - int n - 2] = a # [a + 1 .. a + 1 + int (invocations ?r) - int (Suc n) - 2]"
            by (subst upto_rec1) (auto simp: algebra_simps)
          with ih show ?thesis unfolding eq by simp
        next
          case False
          with am have "a = m" by simp
          then show ?thesis using am Inl nr
            by (simp add: retryLoop.simps)
        qed
      qed
    qed
  qed
qed

lemma retryRequest_invocations: "invocations (retryRequest f m d st) \<le> nat m"
  unfolding retryRequest_def using retryLoop_invocations_upper[of f m d 1 Undefined st 0 "[]"] by simp

lemma retryRequest_sleeps:
  "sleeps (retryRequest f m d st) = map (\<lambda>k. d * k) [1 .. int (invocations (retryRequest f m d st)) - 1]"
  unfolding retryRequest_def by (subst retryLoop_sleeps) (simp add: algebra_simps)

lemma retryRequest_first_nonRetryable:
  "requestFn st = (Inl e, s1) \<Longrightarrow> nonRetryable e \<Longrightarrow> 1 \<le> m \<Longrightarrow>
   retryRequest requestFn m d st = \<lparr>outcome = Inl (ErrorObj e), opState = s1, invocations = 1, sleeps = []\<rparr>"
  by (simp add: retryRequest_def retryLoop.simps)

lemma retryRequest_third:
  "requestFn st = (Inl e1, s1) \<Longrightarrow> \<not> nonRetryable e1 \<Longrightarrow>
   requestFn s1 = (Inl e2, s2) \<Longrightarrow> \<not> nonRetryable e2 \<Longrightarrow> requestFn s2 = (r, s3) \<Longrightarrow>
   retryRequest requestFn 3 d st =
     \<lparr>outcome = (case r of Inr v \<Rightarrow> Inr v | Inl e3 \<Rightarrow> Inl (ErrorObj e3)), opState = s3,
      invocations = 3, sleeps = [d, d * 2]\<rparr>"
  by (simp add: retryRequest_def retryLoop.simps [of requestFn 3] split: sum.splits)

text \<open>
  Claim C5. With three attempts and a base delay of 1000 ms, the operation is invoked
  at most three times; the delay slept before attempt \<open>k + 1\<close> is \<open>1000 * k\<close>, so
  that the delays of a run are those of \<open>k = 1\<close> up to the number of invocations less
  one; an operation that fails twice with retryable errors and then succeeds returns
  that success after exactly three invocations; an operation whose first error has a
  message that contains \<^verbatim>\<open>Authentication\<close>, \<^verbatim>\<open>Access denied\<close> or
  \<^verbatim>\<open>validation\<close> is invoked once and rejects with that very error; and when all
  three attempts fail the error of the last one is the one surfaced.
\<close>

theorem retryRequest_policy:
  "invocations (retryRequest requestFn 3 1000 st) \<le> 3
   \<and> sleeps (retryRequest requestFn 3 1000 st) =
       map (\<lambda>k. 1000 * k) [1 .. int (invocations (retryRequest requestFn 3 1000 st)) - 1]
   \<and> (requestFn st = (Inl ea, sa) \<and> \<not> nonRetryable ea \<and> requestFn sa = (Inl eb, sb) \<and>
        \<not> nonRetryable eb \<and> requestFn sb = (Inr v, sc) \<longrightarrow>
        outcome (retryRequest requestFn 3 1000 st) = Inr v \<and>
        invocations (retryRequest requestFn 3 1000 st) = 3 \<and>
        sleeps (retryRequest requestFn 3 1000 st) = [1000, 2000])
   \<and> (requestFn st = (Inl e, ta) \<and> nonRetryable e \<longrightarrow>
        outcome (retryRequest requestFn 3 1000 st) = Inl (ErrorObj e) \<and>
        invocations (retryRequest requestFn 3 1000 st) = 1)
   \<and> (requestFn st = (Inl ea, sa) \<and> \<not> nonRetryable ea \<and> requestFn sa = (Inl eb, sb) \<and>
        \<not> nonRetryable eb \<and> requestFn sb = (Inl ec, sc) \<longrightarrow>
        outcome (retryRequest requestFn 3 1000 st) = Inl (ErrorObj ec) \<and>
        invocations (retryRequest requestFn 3 1000 st) = 3)"
proof (intro conjI impI)
  show "invocations (retryRequest requestFn 3 1000 st) \<le> 3"
    using retryRequest_invocations [of requestFn 3 1000 st] by simp
  show "sleeps (retryRequest requestFn 3 1000 st) =
       map (\<lambda>k. 1000 * k) [1 .. int (invocations (retryRequest requestFn 3 1000 st)) - 1]"
    by (rule retryRequest_sleeps)
next
  assume h: "requestFn st = (Inl ea, sa) \<and> \<not> nonRetryable ea \<and> requestFn sa = (Inl eb, sb) \<and>
        \<not> nonRetryable eb \<and> requestFn sb = (Inr v, sc)"
  then have eq: "retryRequest requestFn 3 1000 st =
     \<lparr>outcome = Inr v, opState = sc, invocations = 3, sleeps = [1000, 2000]\<rparr>"
    using retryRequest_third [of requestFn st ea sa eb sb "Inr v" sc 1000] by simp
  show "outcome (retryRequest requestFn 3 1000 st) = Inr v" by (simp add: eq)
  show "invocations (retryRequest requestFn 3 1000 st) = 3" by (simp add: eq)
  show "sleeps (retryRequest requestFn 3 1000 st) = [1000, 2000]" by (simp add: eq)
next
  assume h: "requestFn st = (Inl e, ta) \<and> nonRetryable e"
  then have eq: "retryRequest requestFn 3 1000 st =
      \<lparr>outcome = Inl (ErrorObj e), opState = ta, invocations = 1, sleeps = []\<rparr>"
    using retryRequest_first_nonRetryable [of requestFn st e ta 3 1000] by simp
  show "outcome (retryRequest requestFn 3 1000 st) = Inl (ErrorObj e)" by (simp add: eq)
  show "invocations (retryRequest requestFn 3 1000 st) = 1" by (simp add: eq)
next
  assume h: "requestFn st = (Inl ea, sa) \<and> \<not> nonRetryable ea \<and> requestFn sa = (Inl eb, sb) \<and>
        \<not> nonRetryable eb \<and> requestFn sb = (Inl ec, sc)"
  then have eq: "retryRequest requestFn 3 1000 st =
     \<lparr>outcome = Inl (ErrorObj ec), opState = sc, invocations = 3, sleeps = [1000, 2000]\<rparr>"
    using retryRequest_third [of requestFn st ea sa eb sb "Inl ec" sc 1000] by simp
  show "outcome (retryRequest requestFn 3 1000 st) = Inl (ErrorObj ec)" by (simp add: eq)
  show "invocations (retryRequest requestFn 3 1000 st) = 3" by (simp add: eq)
qed

lemma nonRetryable_samples:
  "\<not> nonRetryable \<lparr>message = Some ''Network error. Please check your connection.''\<rparr>"
  "\<not> nonRetryable \<lparr>message = Some ''Server error. Please try again later.''\<rparr>"
  "nonRetryable \<lparr>message = Some ''Authentication required''\<rparr>"
  "nonRetryable \<lparr>message = Some ''Access denied''\<rparr>"
  "nonRetryable \<lparr>message = Some ''Request validation failed''\<rparr>"
  "\<not> nonRetryable \<lparr>message = None\<rparr>"
  by (simp_all add: nonRetryable_def)

lemma upto_1_2: "[1..2] = [1, 2::int]"
  by (simp add: upto.simps [of 1])

theorem retryRequest_policy_witness:
  "outcome (retryRequest failTwice 3 1000 0) = Inr ''ok''
   \<and> invocations (retryRequest failTwice 3 1000 0) = 3
   \<and> sleeps (retryRequest failTwice 3 1000 0) = [1000, 2000]
   \<and> outcome (retryRequest alwaysUnauthorized 3 1000 0) =
       Inl (ErrorObj \<lparr>message = Some ''Authentication required''\<rparr>)
   \<and> invocations (retryRequest alwaysUnauthorized 3 1000 0) = 1
   \<and> outcome (retryRequest alwaysDown 3 1000 0) =
       Inl (ErrorObj \<lparr>message = Some ''Server error. Please try again later.''\<rparr>)
   \<and> invocations (retryRequest alwaysDown 3 1000 0) = 3"
proof -
  let ?net = "\<lparr>message = Some ''Network error. Please check your connection.''\<rparr>"
  let ?auth = "\<lparr>message = Some ''Authentication required''\<rparr>"
  let ?down = "\<lparr>message = Some ''Server error. Please try again later.''\<rparr>"
  have twice: "outcome (retryRequest failTwice 3 1000 0) = Inr ''ok''
      \<and> invocations (retryRequest failTwice 3 1000 0) = 3
      \<and> sleeps (retryRequest failTwice 3 1000 0) = [1000, 2000]"
    using retryRequest_policy [where requestFn = failTwice and st = 0 and sa = 1 and sb = 2
        and sc = 3 and v = "''ok''" and ea = ?net and eb = ?net and ec = ?net and e = ?net
        and ta = 1]
    by (simp add: failTwice_def nonRetryable_samples upto_1_2)
  have auth: "outcome (retryRequest alwaysUnauthorized 3 1000 0) = Inl (ErrorObj ?auth)
      \<and> invocations (retryRequest alwaysUnauthorized 3 1000 0) = 1"
    using retryRequest_policy [where requestFn = alwaysUnauthorized and st = 0 and sa = 1
        and sb = 2 and sc = 3 and v = "''ok''" and ea = ?auth and eb = ?auth and ec = ?auth
        and e = ?auth and ta = 1]
    by (simp add: alwaysUnauthorized_def nonRetryable_samples)
  have down: "outcome (retryRequest alwaysDown 3 1000 0) = Inl (ErrorObj ?down)
      \<and> invocations (retryRequest alwaysDown 3 1000 0) = 3"
    using retryRequest_policy [where requestFn = alwaysDown and st = 0 and sa = 1 and sb = 2
        and sc = 3 and v = "''ok''" and ea = ?down and eb = ?down and ec = ?down and e = ?down
        and ta = 1]
    by (simp add: alwaysDown_def nonRetryable_samples upto_1_2)
  from twice auth down show ?thesis by simp
qed

text \<open>
  Claim C10. With \<open>maxRetries < 1\<close> the loop body never runs: the operation is not
  invoked and the call rejects with \<^verbatim>\<open>undefined\<close>, the initial value of
  \<^verbatim>\<open>lastError\<close>.
\<close>

theorem retryRequest_no_attempts:
  "maxRetries < 1 \<Longrightarrow>
     invocations (retryRequest requestFn maxRetries delay st) = 0 \<and>
     outcome (retryRequest requestFn maxRetries delay st) = Inl Undefined"
  by (simp add: retryRequest_def retryLoop.simps)

theorem retryRequest_no_attempts_witness:
  "(0::int) < 1 \<and> invocations (retryRequest alwaysDown 0 1000 0) = 0 \<and>
     outcome (retryRequest alwaysDown 0 1000 0) = Inl Undefined"
  using retryRequest_no_attempts [of 0 alwaysDown 1000 0] by simp


section \<open>Properties of the response-error handler\<close>











section \<open>Properties of registration\<close>

text \<open>
  Claim C6, as stated, fails: the user name's length is not the first check but the
  last. With a user name of two characters, an invalid email is reported first, then
  a mismatch of the passwords; and an empty field is reported before anything else.
\<close>

theorem register_username_checked_last:
  "regResult (register sampleIsValidEmail sampleValidatePassword sampleContextRegister
      ''ab'' ''not-an-email'' ''Passw0rd'' ''Passw0rd'' 0) = Failure ''Please enter a valid email address''
   \<and> regResult (register sampleIsValidEmail sampleValidatePassword sampleContextRegister
      ''ab'' ''abebe@example.com'' ''Passw0rd'' ''Passw0rd-'' 0) = Failure ''Passwords do not match''
   \<and> regResult (register sampleIsValidEmail sampleValidatePassword sampleContextRegister
      ''ab'' [] ''Passw0rd'' ''Passw0rd'' 0) = Failure ''All fields are required''"
  by (simp add: register_def caught_def orElse_def truthy_def sampleIsValidEmail_def
      sampleValidatePassword_def)

text \<open>
  Claim C6, amended. Local validation runs before the network call, in this order:
  all four fields non-empty, email format, password strength, equality of password and
  confirmation, user name of at least three characters. The first failure decides the
  error returned and no network call is made; the password-strength error is the
  policy violations joined by a comma and a space (\<^verbatim>\<open>Registration failed\<close> should
  that text be empty). When all checks pass the context's \<^verbatim>\<open>register\<close> is called
  once.
\<close>

theorem register_validation_order:
  "(uname = [] \<or> email = [] \<or> password = [] \<or> confirmPassword = [] \<longrightarrow>
      register isValidEmail validatePassword registerCall uname email password confirmPassword c =
        \<lparr>regResult = Failure ''All fields are required'', regContext = c, regNetworkCalls = 0\<rparr>)
   \<and> (uname \<noteq> [] \<and> email \<noteq> [] \<and> password \<noteq> [] \<and> confirmPassword \<noteq> [] \<and>
       \<not> isValidEmail email \<longrightarrow>
      register isValidEmail validatePassword registerCall uname email password confirmPassword c =
        \<lparr>regResult = Failure ''Please enter a valid email address'', regContext = c,
         regNetworkCalls = 0\<rparr>)
   \<and> (uname \<noteq> [] \<and> email \<noteq> [] \<and> password \<noteq> [] \<and> confirmPassword \<noteq> [] \<and>
       isValidEmail email \<and> \<not> isValid (validatePassword password) \<longrightarrow>
      register isValidEmail validatePassword registerCall uname email password confirmPassword c =
        \<lparr>regResult = Failure (orElse (join '', '' (errors (validatePassword password)))
                                ''Registration failed''),
         regContext = c, regNetworkCalls = 0\<rparr>)
   \<and> (uname \<noteq> [] \<and> email \<noteq> [] \<and> password \<noteq> [] \<and> confirmPassword \<noteq> [] \<and>
       isValidEmail email \<and> isValid (validatePassword password) \<and>
       password \<noteq> confirmPassword \<longrightarrow>
      register isValidEmail validatePassword registerCall uname email password confirmPassword c =
        \<lparr>regResult = Failure ''Passwords do not match'', regContext = c, regNetworkCalls = 0\<rparr>)
   \<and> (uname \<noteq> [] \<and> email \<noteq> [] \<and> password \<noteq> [] \<and> confirmPassword \<noteq> [] \<and>
       isValidEmail email \<and> isValid (validatePassword password) \<and>
       password = confirmPassword \<and> length uname < 3 \<longrightarrow>
      register isValidEmail validatePassword registerCall uname email password confirmPassword c =
        \<lparr>regResult = Failure ''Username must be at least 3 characters long'', regContext = c,
         regNetworkCalls = 0\<rparr>)
   \<and> (email \<noteq> [] \<and> password \<noteq> [] \<and> isValidEmail email \<and>
       isValid (validatePassword password) \<and> password = confirmPassword \<and> 3 \<le> length uname \<longrightarrow>
      register isValidEmail validatePassword registerCall uname email password confirmPassword c =
        \<lparr>regResult =
           (case fst (registerCall uname email password c) of
              Success \<Rightarrow> Success
            | Failure e \<Rightarrow> Failure (orElse e ''Registration failed'')),
         regContext = snd (registerCall uname email password c), regNetworkCalls = 1\<rparr>)"
  by (auto simp add: register_def caught_def orElse_def truthy_def
      split: prod.splits auth_result.splits)

theorem register_validation_order_witness:
  "register sampleIsValidEmail sampleValidatePassword sampleContextRegister
      [] ''abebe@example.com'' ''Passw0rd'' ''Passw0rd'' 0 =
     \<lparr>regResult = Failure ''All fields are required'', regContext = 0, regNetworkCalls = 0\<rparr>
   \<and> register sampleIsValidEmail sampleValidatePassword sampleContextRegister
      ''ab'' ''not-an-email'' ''pass'' ''word'' 0 =
     \<lparr>regResult = Failure ''Please enter a valid email address'', regContext = 0,
      regNetworkCalls = 0\<rparr>
   \<and> register sampleIsValidEmail sampleValidatePassword sampleContextRegister
      ''ab'' ''abebe@example.com'' ''pass'' ''word'' 0 =
     \<lparr>regResult = Failure
        ''Password must be at least 8 characters long, Password must contain at least one number'',
      regContext = 0, regNetworkCalls = 0\<rparr>
   \<and> register sampleIsValidEmail sampleValidatePassword sampleContextRegister
      ''ab'' ''abebe@example.com'' ''Passw0rd'' ''Passw0rd-'' 0 =
     \<lparr>regResult = Failure ''Passwords do not match'', regContext = 0, regNetworkCalls = 0\<rparr>
   \<and> register sampleIsValidEmail sampleValidatePassword sampleContextRegister
      ''ab'' ''abebe@example.com'' ''Passw0rd'' ''Passw0rd'' 0 =
     \<lparr>regResult = Failure ''Username must be at least 3 characters long'', regContext = 0,
      regNetworkCalls = 0\<rparr>
   \<and> register sampleIsValidEmail sampleValidatePassword sampleContextRegister
      ''abebe'' ''abebe@example.com'' ''Passw0rd'' ''Passw0rd'' 0 =
     \<lparr>regResult = Success, regContext = 1, regNetworkCalls = 1\<rparr>"
proof -
  note defs = sampleIsValidEmail_def sampleValidatePassword_def sampleContextRegister_def
    orElse_def truthy_def
  note inst = register_validation_order [where isValidEmail = sampleIsValidEmail
      and validatePassword = sampleValidatePassword and registerCall = sampleContextRegister
      and c = 0]
  have a: "register sampleIsValidEmail sampleValidatePassword sampleContextRegister
      [] ''abebe@example.com'' ''Passw0rd'' ''Passw0rd'' 0 =
     \<lparr>regResult = Failure ''All fields are required'', regContext = 0, regNetworkCalls = 0\<rparr>"
    using inst [where uname = "[]" and email = "''abebe@example.com''"
        and password = "''Passw0rd''" and confirmPassword = "''Passw0rd''"]
    by simp
  have b: "register sampleIsValidEmail sampleValidatePassword sampleContextRegister
      ''ab'' ''not-an-email'' ''pass'' ''word'' 0 =
     \<lparr>regResult = Failure ''Please enter a valid email address'', regContext = 0,
      regNetworkCalls = 0\<rparr>"
    using inst [where uname = "''ab''" and email = "''not-an-email''"
        and password = "''pass''" and confirmPassword = "''word''"]
    by (simp add: defs)
  have c: "register sampleIsValidEmail sampleValidatePassword sampleContextRegister
      ''ab'' ''abebe@example.com'' ''pass'' ''word'' 0 =
     \<lparr>regResult = Failure
        ''Password must be at least 8 characters long, Password must contain at least one number'',
      regContext = 0, regNetworkCalls = 0\<rparr>"
    using inst [where uname = "''ab''" and email = "''abebe@example.com''"
        and password = "''pass''" and confirmPassword = "''word''"]
    by (simp add: defs)
  have d: "register sampleIsValidEmail sampleValidatePassword sampleContextRegister
      ''ab'' ''abebe@example.com'' ''Passw0rd'' ''Passw0rd-'' 0 =
     \<lparr>regResult = Failure ''Passwords do not match'', regContext = 0, regNetworkCalls = 0\<rparr>"
    using inst [where uname = "''ab''" and email = "''abebe@example.com''"
        and password = "''Passw0rd''" and confirmPassword = "''Passw0rd-''"]
    by (simp add: defs)
  have e: "register sampleIsValidEmail sampleValidatePassword sampleContextRegister
      ''ab'' ''abebe@example.com'' ''Passw0rd'' ''Passw0rd'' 0 =
     \<lparr>regResult = Failure ''Username must be at least 3 characters long'', regContext = 0,
      regNetworkCalls = 0\<rparr>"
    using inst [where uname = "''ab''" and email = "''abebe@example.com''"
        and password = "''Passw0rd''" and confirmPassword = "''Passw0rd''"]
    by (simp add: defs)
  have f: "register sampleIsValidEmail sampleValidatePassword sampleContextRegister
      ''abebe'' ''abebe@example.com'' ''Passw0rd'' ''Passw0rd'' 0 =
     \<lparr>regResult = Success, regContext = 1, regNetworkCalls = 1\<rparr>"
    using inst [where uname = "''abebe''" and email = "''abebe@example.com''"
        and password = "''Passw0rd''" and confirmPassword = "''Passw0rd''"]
    by (simp add: defs)
  from a b c d e f show ?thesis by (intro conjI)
qed

section \<open>Properties of the session lifecycle\<close>

lemma toInt32_id: "- 2147483648 \<le> x \<Longrightarrow> x \<le> 2147483647 \<Longrightarrow> toInt32 x = x"
  unfolding toInt32_def by (subst mod_pos_pos_trivial) simp_all

lemma timerDelay_id: "0 \<le> x \<Longrightarrow> x \<le> 2147483647 \<Longrightarrow> timerDelay x = x"
  by (simp add: timerDelay_def toInt32_id)

lemma timerDelay_overflow: "2147483648 \<le> x \<Longrightarrow> x \<le> 4294967295 \<Longrightarrow> timerDelay x = 0"
proof -
  assume a: "2147483648 \<le> x" and b: "x \<le> 4294967295"
  have "(x + 2147483648) mod 4294967296 = (x - 2147483648 + 4294967296) mod 4294967296"
    by (simp add: algebra_simps)
  also have "\<dots> = (x - 2147483648) mod 4294967296"
    by (rule mod_add_self2)
  also have "\<dots> = x - 2147483648"
    using a b by (intro mod_pos_pos_trivial) simp_all
  finally have "toInt32 x = x - 4294967296"
    by (simp add: toInt32_def)
  with b show ?thesis
    by (simp add: timerDelay_def)
qed

lemma timerDelay_half_hour: "timerDelay 1800000 = 1800000"
  by (rule timerDelay_id) simp_all

lemma scheduleTokenRefresh_simps:
  "timers (scheduleTokenRefresh now d s) =
     filter (\<lambda>t. Some (fst t) \<noteq> refreshTimeoutRef s) (timers s) @
       [(nextTimerId s, RefreshCb, now + timerDelay (max (d - 60000) 0))]"
  "refreshTimeoutRef (scheduleTokenRefresh now d s) = Some (nextTimerId s)"
  "activityTimeoutRef (scheduleTokenRefresh now d s) = activityTimeoutRef s"
  "nextTimerId (scheduleTokenRefresh now d s) = Suc (nextTimerId s)"
  "user (scheduleTokenRefresh now d s) = user s"
  "sessionExpiry (scheduleTokenRefresh now d s) = sessionExpiry s"
  "lastActivity (scheduleTokenRefresh now d s) = lastActivity s"
  "localStorage (scheduleTokenRefresh now d s) = localStorage s"
  by (simp_all add: scheduleTokenRefresh_def setTimeout_def clearTimeout_def Let_def
      split: option.splits)

lemma scheduleActivityTimeout_simps:
  "timers (scheduleActivityTimeout now s) =
     filter (\<lambda>t. Some (fst t) \<noteq> activityTimeoutRef s) (timers s) @
       [(nextTimerId s, SessionTimeoutCb, now + 1800000)]"
  "activityTimeoutRef (scheduleActivityTimeout now s) = Some (nextTimerId s)"
  "refreshTimeoutRef (scheduleActivityTimeout now s) = refreshTimeoutRef s"
  "nextTimerId (scheduleActivityTimeout now s) = Suc (nextTimerId s)"
  "user (scheduleActivityTimeout now s) = user s"
  "sessionExpiry (scheduleActivityTimeout now s) = sessionExpiry s"
  "lastActivity (scheduleActivityTimeout now s) = lastActivity s"
  "localStorage (scheduleActivityTimeout now s) = localStorage s"
  by (simp_all add: scheduleActivityTimeout_def setTimeout_def clearTimeout_def Let_def
      timerDelay_half_hour split: option.splits)

lemma handleLogout_simps:
  "timers (handleLogout s) =
     filter (\<lambda>t. Some (fst t) \<noteq> refreshTimeoutRef s \<and> Some (fst t) \<noteq> activityTimeoutRef s)
       (timers s)"
  "refreshTimeoutRef (handleLogout s) = None"
  "activityTimeoutRef (handleLogout s) = None"
  "nextTimerId (handleLogout s) = nextTimerId s"
  "user (handleLogout s) = None"
  "sessionExpiry (handleLogout s) = None"
  "localStorage (handleLogout s) = \<lparr>tokenItem = None, refreshTokenItem = None\<rparr>"
  "lastActivity (handleLogout s) = lastActivity s"
  by (auto simp add: handleLogout_def clearTimeout_def removeItems_def Let_def
      split: option.splits intro: filter_cong)

lemma tracked_member:
  "tracked s \<Longrightarrow> t \<in> set (timers s) \<Longrightarrow>
     (fst (snd t) = RefreshCb \<and> refreshTimeoutRef s = Some (fst t) \<and>
        activityTimeoutRef s \<noteq> Some (fst t)) \<or>
     (fst (snd t) = SessionTimeoutCb \<and> activityTimeoutRef s = Some (fst t) \<and>
        refreshTimeoutRef s \<noteq> Some (fst t))"
  by (cases "fst (snd t)") (auto simp add: tracked_def trackedBy_def list_all_iff)

lemma tracked_filter_refresh:
  "tracked s \<Longrightarrow>
   filter (\<lambda>t. Some (fst t) \<noteq> refreshTimeoutRef s \<and> fst (snd t) = RefreshCb) (timers s) = []"
  by (auto simp add: filter_empty_conv dest: tracked_member)

lemma tracked_filter_activity:
  "tracked s \<Longrightarrow>
   filter (\<lambda>t. Some (fst t) \<noteq> activityTimeoutRef s \<and> fst (snd t) = SessionTimeoutCb)
     (timers s) = []"
  by (auto simp add: filter_empty_conv dest: tracked_member)

lemma tracked_keep_activity:
  "tracked s \<Longrightarrow>
   filter (\<lambda>t. Some (fst t) \<noteq> refreshTimeoutRef s \<and> fst (snd t) = SessionTimeoutCb)
     (timers s) =
   filter (\<lambda>t. fst (snd t) = SessionTimeoutCb) (timers s)"
  by (rule filter_cong) (auto dest: tracked_member)

lemma tracked_keep_refresh:
  "tracked s \<Longrightarrow>
   filter (\<lambda>t. Some (fst t) \<noteq> activityTimeoutRef s \<and> fst (snd t) = RefreshCb) (timers s) =
   filter (\<lambda>t. fst (snd t) = RefreshCb) (timers s)"
  by (rule filter_cong) (auto dest: tracked_member)

lemma pending_scheduleTokenRefresh:
  assumes "tracked s"
  shows "pending RefreshCb (scheduleTokenRefresh now d s) =
      [now + timerDelay (max (d - 60000) 0)]"
    and "pending SessionTimeoutCb (scheduleTokenRefresh now d s) = pending SessionTimeoutCb s"
  using assms
  by (simp_all add: pending_def scheduleTokenRefresh_simps tracked_filter_refresh
      tracked_keep_activity)

lemma pending_scheduleActivityTimeout:
  assumes "tracked s"
  shows "pending SessionTimeoutCb (scheduleActivityTimeout now s) = [now + 1800000]"
    and "pending RefreshCb (scheduleActivityTimeout now s) = pending RefreshCb s"
  using assms
  by (simp_all add: pending_def scheduleActivityTimeout_simps tracked_filter_activity
      tracked_keep_refresh)

lemma timers_handleLogout:
  "tracked s \<Longrightarrow> timers (handleLogout s) = []"
  by (auto simp add: handleLogout_simps filter_empty_conv dest: tracked_member)

lemma tracked_initialProvider: "tracked (initialProvider now)"
  by (simp add: tracked_def initialProvider_def handedOut_def)

lemma tracked_scheduleTokenRefresh:
  "tracked s \<Longrightarrow> tracked (scheduleTokenRefresh now d s)"
  by (auto simp add: tracked_def scheduleTokenRefresh_simps trackedBy_def handedOut_def
      list_all_iff split: timer_cb.splits option.splits)

lemma tracked_scheduleActivityTimeout:
  "tracked s \<Longrightarrow> tracked (scheduleActivityTimeout now s)"
  by (auto simp add: tracked_def scheduleActivityTimeout_simps trackedBy_def handedOut_def
      list_all_iff split: timer_cb.splits option.splits)

lemma tracked_handleLogout:
  "tracked s \<Longrightarrow> tracked (handleLogout s)"
  by (auto simp add: tracked_def handleLogout_simps trackedBy_def handedOut_def
      list_all_iff split: timer_cb.splits option.splits)

lemma tracked_update:
  "tracked (s\<lparr>user := u\<rparr>) = tracked s"
  "tracked (s\<lparr>sessionExpiry := e\<rparr>) = tracked s"
  "tracked (s\<lparr>lastActivity := a\<rparr>) = tracked s"
  "tracked (s\<lparr>localStorage := l\<rparr>) = tracked s"
  "tracked (s\<lparr>isRefreshing := b\<rparr>) = tracked s"
  "tracked (s\<lparr>refreshPromiseRef := p\<rparr>) = tracked s"
  "tracked (s\<lparr>nextPromiseId := k\<rparr>) = tracked s"
  "tracked (s\<lparr>settled := z\<rparr>) = tracked s"
  "tracked (s\<lparr>refreshRequests := n\<rparr>) = tracked s"
  by (simp_all add: tracked_def handedOut_def list_all_iff trackedBy_def
      cong: timer_cb.case_cong option.case_cong)

lemma tracked_login: "tracked s \<Longrightarrow> tracked (snd (login now result s))"
  by (simp add: login_def Let_def tracked_update tracked_scheduleTokenRefresh
      tracked_scheduleActivityTimeout split: sum.splits)

lemma tracked_contextRegister: "tracked s \<Longrightarrow> tracked (snd (contextRegister now result s))"
  by (simp add: contextRegister_def Let_def tracked_update tracked_scheduleTokenRefresh
      tracked_scheduleActivityTimeout split: sum.splits)

lemma tracked_loginWithTokens: "tracked s \<Longrightarrow> tracked (snd (loginWithTokens now tok rtok u s))"
  by (simp add: loginWithTokens_def Let_def tracked_update tracked_scheduleActivityTimeout)

lemma tracked_initializeAuth: "tracked s \<Longrightarrow> tracked (initializeAuth now result s)"
  by (simp add: initializeAuth_def Let_def tracked_update tracked_scheduleTokenRefresh
      tracked_scheduleActivityTimeout tracked_handleLogout split: sum.splits option.splits)

lemma tracked_handleActivity: "tracked s \<Longrightarrow> tracked (handleActivity now s)"
  by (simp add: handleActivity_def updateActivity_def tracked_update tracked_scheduleActivityTimeout)

lemma tracked_refreshToken: "tracked s \<Longrightarrow> tracked (snd (refreshToken captured s))"
  by (simp add: refreshToken_def Let_def tracked_update tracked_handleLogout)

lemma tracked_refreshTokenResume: "tracked s \<Longrightarrow> tracked (refreshTokenResume p now result s)"
  by (simp add: refreshTokenResume_def Let_def tracked_update tracked_handleLogout
      tracked_scheduleTokenRefresh split: sum.splits)

lemma tracked_clearTimeout: "tracked s \<Longrightarrow> tracked (clearTimeout i s)"
  by (auto simp add: tracked_def clearTimeout_def trackedBy_def handedOut_def list_all_iff
      split: timer_cb.splits option.splits)

lemma mountEffectCleanup_simps:
  "timers (mountEffectCleanup s) =
     filter (\<lambda>t. Some (fst t) \<noteq> refreshTimeoutRef s \<and> Some (fst t) \<noteq> activityTimeoutRef s)
       (timers s)"
  "refreshTimeoutRef (mountEffectCleanup s) = refreshTimeoutRef s"
  "activityTimeoutRef (mountEffectCleanup s) = activityTimeoutRef s"
  "sessionExpiry (mountEffectCleanup s) = sessionExpiry s"
  by (auto simp add: mountEffectCleanup_def clearTimeout_def Let_def
      split: option.splits intro: filter_cong)

lemma tracked_mountEffectCleanup: "tracked s \<Longrightarrow> tracked (mountEffectCleanup s)"
  by (simp add: mountEffectCleanup_def Let_def tracked_clearTimeout split: option.splits)

lemma timers_mountEffectCleanup: "tracked s \<Longrightarrow> timers (mountEffectCleanup s) = []"
  by (auto simp add: mountEffectCleanup_simps filter_empty_conv dest: tracked_member)

text \<open>The invariant holds in every state the provider can be in.\<close>

lemma reachable_tracked: "reachable s \<Longrightarrow> tracked s"
proof (induction rule: reachable.induct)
  case (mount now)
  show ?case by (rule tracked_initialProvider)
next
  case (signedOut s)
  then show ?case by (simp add: logout_def tracked_handleLogout)
next
  case (recorded s now)
  then show ?case by (simp add: updateActivity_def tracked_update)
qed (simp_all add: tracked_initializeAuth tracked_login tracked_contextRegister
      tracked_loginWithTokens tracked_handleActivity tracked_refreshToken
      tracked_refreshTokenResume tracked_clearTimeout tracked_mountEffectCleanup)

lemma reachable_activeProvider: "reachable activeProvider"
  unfolding activeProvider_def by (intro reachable.signedIn reachable.mount)

lemma activeProvider_eq:
  "activeProvider =
     \<lparr>user = Some sampleUser, sessionExpiry = Some 900000, lastActivity = 0, isRefreshing = False,
      refreshTimeoutRef = Some 1, activityTimeoutRef = Some 2, refreshPromiseRef = None,
      localStorage = \<lparr>tokenItem = Some ''jwt-1'', refreshTokenItem = Some ''r-1''\<rparr>,
      timers = [(1, RefreshCb, 840000), (2, SessionTimeoutCb, 1800000)],
      nextTimerId = 3, nextPromiseId = 0, settled = [], refreshRequests = 0\<rparr>"
  by (simp add: activeProvider_def login_def sampleResponse_def initialProvider_def storeTokens_def
      truthy_def scheduleTokenRefresh_def scheduleActivityTimeout_def setTimeout_def Let_def
      timerDelay_id)

lemma tracked_activeProvider: "tracked activeProvider"
  by (rule reachable_tracked [OF reachable_activeProvider])

lemma refreshToken_joins:
  "refreshPromiseRef s = Some p \<Longrightarrow> refreshToken True s = (p, s)"
  by (simp add: refreshToken_def)

text \<open>
  Claim C1 on the code. Two calls of the \<^verbatim>\<open>refreshToken\<close> created by one render of a
  signed-in provider (two effects of one commit, or two calls in a row): the first
  issues the request and stores its promise, which is not settled; the second, made by
  the same function, still reads \<^verbatim>\<open>isRefreshing\<close> as false, skips the guard, issues
  a second request and returns another promise. Only the function of a later render,
  which has captured \<^verbatim>\<open>isRefreshing\<close> as true, returns the stored promise and issues
  nothing.
\<close>

theorem refreshToken_same_render_twice:
  "(let first = renderedRefresh activeProvider activeProvider;
        second = renderedRefresh activeProvider (snd first)
    in refreshPromiseRef (snd first) = Some (fst first)
       \<and> map_of (settled (snd first)) (fst first) = None
       \<and> refreshRequests (snd first) = 1
       \<and> fst second \<noteq> fst first
       \<and> refreshRequests (snd second) = 2
       \<and> renderedRefresh (snd first) (snd first) = (fst first, snd first))"
  by (simp add: renderedRefresh_def refreshToken_def activeProvider_eq truthy_def Let_def)

text \<open>
  Claim C2, as stated, fails: \<^verbatim>\<open>updateActivity\<close> at time 5000 records the time but
  the inactivity timer set at time 0 still fires at 1800000, not at 1805000.
\<close>

theorem updateActivity_leaves_timer:
  "lastActivity (updateActivity 5000 activeProvider) = 5000
   \<and> pending SessionTimeoutCb (updateActivity 5000 activeProvider) = [1800000]"
  by (simp add: updateActivity_def pending_def activeProvider_eq)

text \<open>
  Claim C2, amended. \<^verbatim>\<open>updateActivity\<close> at time \<open>now\<close> records \<open>now\<close> as the last
  activity and leaves the timers alone. The DOM listener \<^verbatim>\<open>handleActivity\<close> records
  \<open>now\<close>, cancels the inactivity timer the ref holds and schedules a new one, so that
  the one pending inactivity timer fires at \<open>now\<close> plus 30 minutes; the refresh timer
  is untouched.
\<close>

theorem activity_rescheduling:
  "lastActivity (updateActivity now s) = now
   \<and> timers (updateActivity now s) = timers s
   \<and> activityTimeoutRef (updateActivity now s) = activityTimeoutRef s
   \<and> lastActivity (handleActivity now s) = now
   \<and> timers (handleActivity now s) =
       filter (\<lambda>t. Some (fst t) \<noteq> activityTimeoutRef s) (timers s) @
         [(nextTimerId s, SessionTimeoutCb, now + 30 * 60 * 1000)]
   \<and> (tracked s \<longrightarrow>
        pending SessionTimeoutCb (handleActivity now s) = [now + 30 * 60 * 1000] \<and>
        pending RefreshCb (handleActivity now s) = pending RefreshCb s)"
proof -
  have t: "tracked (updateActivity now s) = tracked s"
    by (simp add: updateActivity_def tracked_update)
  have p: "pending RefreshCb (updateActivity now s) = pending RefreshCb s"
    by (simp add: updateActivity_def pending_def)
  show ?thesis
    by (simp add: handleActivity_def scheduleActivityTimeout_simps
        pending_scheduleActivityTimeout t p)
      (simp add: updateActivity_def)
qed

theorem activity_rescheduling_witness:
  "tracked activeProvider
   \<and> pending SessionTimeoutCb activeProvider = [1800000]
   \<and> pending SessionTimeoutCb (handleActivity 5000 activeProvider) = [1805000]
   \<and> pending RefreshCb (handleActivity 5000 activeProvider) = [840000]"
  using activity_rescheduling [of 5000 activeProvider] tracked_activeProvider
  by (simp add: pending_def activeProvider_eq)

text \<open>
  Within the range of a timer's delay, \<^verbatim>\<open>scheduleTokenRefresh\<close> called at time \<open>now\<close>
  with the server's \<^verbatim>\<open>expiresIn\<close> of \<open>e\<close> seconds leaves exactly one refresh timer
  pending, which fires \<open>max (e - 60) 0\<close> seconds after \<open>now\<close>; so do a successful
  login and registration.
\<close>

lemma scheduleTokenRefresh_in_range:
  assumes "tracked s" and "(e - 60) * 1000 \<le> 2147483647"
  shows "pending RefreshCb (scheduleTokenRefresh now (e * 1000) s) = [now + 1000 * max (e - 60) 0]"
proof -
  have m: "max (e * 1000 - 60000) 0 = 1000 * max (e - 60) 0"
    by (simp add: max_def)
  have "timerDelay (1000 * max (e - 60) 0) = 1000 * max (e - 60) 0"
    using assms(2) by (intro timerDelay_id) (simp_all add: max_def)
  with assms(1) show ?thesis
    by (simp add: pending_scheduleTokenRefresh m)
qed

lemma login_refresh_in_range:
  assumes "tracked s" and "(expiresIn r - 60) * 1000 \<le> 2147483647"
  shows "pending RefreshCb (snd (login now (Inr r) s)) = [now + 1000 * max (expiresIn r - 60) 0]"
    and "pending RefreshCb (snd (contextRegister now (Inr r) s)) =
      [now + 1000 * max (expiresIn r - 60) 0]"
  using assms
  by (simp_all add: login_def contextRegister_def Let_def pending_scheduleActivityTimeout
      tracked_scheduleTokenRefresh tracked_update scheduleTokenRefresh_in_range)

lemma refresh_timer_cleaned:
  "tracked s \<Longrightarrow> pending RefreshCb (mountEffectCleanup (refreshTokenResume p now result s)) = []"
  by (simp add: pending_def timers_mountEffectCleanup tracked_refreshTokenResume)

text \<open>
  Claim C3 on the code. A login at time 0 whose response carries a token of 30 days
  (\<^verbatim>\<open>expiresIn = 2592000\<close>) sets the session expiry to 2592000000 and hands
  \<^verbatim>\<open>setTimeout\<close> the delay 2591940000, which is beyond the 32-bit range: the one
  refresh timer pending fires at time 0, at once, and not 60 seconds before the expiry.
  A token of an hour, from the same state, is refreshed at 3540000.
\<close>

theorem long_lived_token_refreshes_at_once:
  "sessionExpiry (snd (login 0 (Inr longLivedResponse) (initialProvider 0))) = Some 2592000000
   \<and> pending RefreshCb (snd (login 0 (Inr longLivedResponse) (initialProvider 0))) = [0]
   \<and> sessionExpiry (snd (login 0 (Inr hourResponse) (initialProvider 0))) = Some 3600000
   \<and> pending RefreshCb (snd (login 0 (Inr hourResponse) (initialProvider 0))) = [3540000]"
proof -
  have long: "timerDelay 2591940000 = 0"
    by (rule timerDelay_overflow) simp_all
  have hour: "timerDelay 3540000 = 3540000"
    by (rule timerDelay_id) simp_all
  show ?thesis
    by (simp add: login_def Let_def longLivedResponse_def hourResponse_def
        scheduleActivityTimeout_simps scheduleTokenRefresh_simps pending_def long hour)
      (simp add: initialProvider_def)
qed

lemma handleLogout_twice: "handleLogout (handleLogout s) = handleLogout s"
  by (simp add: handleLogout_def removeItems_def clearTimeout_def Let_def split: option.splits)

text \<open>
  Claim C7. From any state, \<^verbatim>\<open>logout\<close> clears the user, the session expiry and
  both stored tokens, empties both timer refs and cancels the timers they held, so
  that no refresh or inactivity timer stays pending; a second \<^verbatim>\<open>logout\<close> changes
  nothing more, and \<^verbatim>\<open>logout\<close> without a session leaves the provider as it is.
  \<open>logout\<close> is a total function without an error result: it cannot fail.
\<close>

theorem logout_idempotent:
  "user (logout s) = None
   \<and> sessionExpiry (logout s) = None
   \<and> localStorage (logout s) = \<lparr>tokenItem = None, refreshTokenItem = None\<rparr>
   \<and> refreshTimeoutRef (logout s) = None
   \<and> activityTimeoutRef (logout s) = None
   \<and> timers (logout s) =
       filter (\<lambda>t. Some (fst t) \<noteq> refreshTimeoutRef s \<and> Some (fst t) \<noteq> activityTimeoutRef s)
         (timers s)
   \<and> (tracked s \<longrightarrow> pending RefreshCb (logout s) = [] \<and> pending SessionTimeoutCb (logout s) = [])
   \<and> logout (logout s) = logout s
   \<and> logout (initialProvider now) = initialProvider now"
proof -
  have cancelled: "tracked s \<longrightarrow>
      pending RefreshCb (logout s) = [] \<and> pending SessionTimeoutCb (logout s) = []"
    by (simp add: logout_def pending_def timers_handleLogout)
  have idle: "logout (initialProvider now) = initialProvider now"
    by (simp add: logout_def handleLogout_def initialProvider_def removeItems_def)
  have cleared: "user (logout s) = None \<and> sessionExpiry (logout s) = None
      \<and> localStorage (logout s) = \<lparr>tokenItem = None, refreshTokenItem = None\<rparr>
      \<and> refreshTimeoutRef (logout s) = None \<and> activityTimeoutRef (logout s) = None
      \<and> timers (logout s) =
          filter (\<lambda>t. Some (fst t) \<noteq> refreshTimeoutRef s \<and> Some (fst t) \<noteq> activityTimeoutRef s)
            (timers s)"
    by (simp add: logout_def handleLogout_simps)
  have twice: "logout (logout s) = logout s"
    by (simp add: logout_def handleLogout_twice)
  from cleared cancelled twice idle show ?thesis
    by blast
qed

theorem logout_idempotent_witness:
  "tracked activeProvider
   \<and> pending RefreshCb activeProvider = [840000]
   \<and> pending SessionTimeoutCb activeProvider = [1800000]
   \<and> pending RefreshCb (logout activeProvider) = []
   \<and> pending SessionTimeoutCb (logout activeProvider) = []
   \<and> user (logout (logout activeProvider)) = None
   \<and> localStorage (logout (logout activeProvider)) = \<lparr>tokenItem = None, refreshTokenItem = None\<rparr>"
  using logout_idempotent [of activeProvider 0] logout_idempotent [of "logout activeProvider" 0]
    tracked_activeProvider
  by (simp add: pending_def activeProvider_eq)

text \<open>
  Recording activity never changes the session expiry, and every operation that sets
  up or renews a session from a server response (login, registration, token refresh,
  the verification at start-up) sets the expiry to the time of the call plus the
  response's \<^verbatim>\<open>expiresIn\<close> seconds.
\<close>

lemma sessionExpiry_from_response:
  "sessionExpiry (updateActivity now s) = sessionExpiry s"
  "sessionExpiry (handleActivity now s) = sessionExpiry s"
  "sessionExpiry (snd (login now (Inr r) s)) = Some (now + expiresIn r * 1000)"
  "sessionExpiry (snd (contextRegister now (Inr r) s)) = Some (now + expiresIn r * 1000)"
  "sessionExpiry (refreshTokenResume p now (Inr r) s) = Some (now + expiresIn r * 1000)"
  "tokenItem (localStorage s) = Some tok \<Longrightarrow> tok \<noteq> [] \<Longrightarrow>
     sessionExpiry (initializeAuth now (Inr r) s) = Some (now + expiresIn r * 1000)"
  by (simp_all add: updateActivity_def handleActivity_def login_def contextRegister_def
      refreshTokenResume_def initializeAuth_def Let_def truthy_def
      scheduleActivityTimeout_simps scheduleTokenRefresh_simps)

text \<open>
  Claim C8 on the code. \<^verbatim>\<open>loginWithTokens\<close> establishes a session but takes no
  \<^verbatim>\<open>expiresIn\<close>: called at time 1000 it sets the expiry to 1000 plus a fixed 15
  minutes, whatever lifetime the server gave the token. \<^verbatim>\<open>login\<close> at the same time
  with a token of an hour sets the expiry an hour ahead.
\<close>

theorem loginWithTokens_fixed_expiry:
  "sessionExpiry (snd (loginWithTokens 1000 ''jwt-1'' (Some ''r-1'') sampleUser (initialProvider 0)))
     = Some 901000
   \<and> sessionExpiry (snd (login 1000 (Inr hourResponse) (initialProvider 0))) = Some 3601000"
  by (simp add: loginWithTokens_def Let_def scheduleActivityTimeout_simps
      sessionExpiry_from_response hourResponse_def)

text \<open>
  Claim C9 on the code. \<^verbatim>\<open>loginWithTokens\<close> on a fresh provider sets the user and
  schedules the inactivity timer, but no refresh timer: none is pending and
  \<^verbatim>\<open>refreshTimeoutRef\<close> stays empty. The same provider after \<^verbatim>\<open>login\<close> has both.
\<close>

theorem loginWithTokens_one_timer:
  "user (snd (loginWithTokens 0 ''jwt-1'' (Some ''r-1'') sampleUser (initialProvider 0))) = Some sampleUser
   \<and> pending SessionTimeoutCb
        (snd (loginWithTokens 0 ''jwt-1'' (Some ''r-1'') sampleUser (initialProvider 0))) = [1800000]
   \<and> pending RefreshCb
        (snd (loginWithTokens 0 ''jwt-1'' (Some ''r-1'') sampleUser (initialProvider 0))) = []
   \<and> refreshTimeoutRef
        (snd (loginWithTokens 0 ''jwt-1'' (Some ''r-1'') sampleUser (initialProvider 0))) = None
   \<and> pending SessionTimeoutCb (snd (login 0 (Inr sampleResponse) (initialProvider 0))) = [1800000]
   \<and> pending RefreshCb (snd (login 0 (Inr sampleResponse) (initialProvider 0))) = [840000]"
  by (simp add: loginWithTokens_def Let_def scheduleActivityTimeout_simps pending_def
      activeProvider_eq [unfolded activeProvider_def])
    (simp add: initialProvider_def)

lemma session_timers_together:
  assumes "tracked s"
  shows "pending RefreshCb (snd (login now (Inr r) s)) =
       [now + timerDelay (max (expiresIn r * 1000 - 60000) 0)]
     \<and> pending SessionTimeoutCb (snd (login now (Inr r) s)) = [now + 1800000]
     \<and> pending RefreshCb (snd (contextRegister now (Inr r) s)) =
       [now + timerDelay (max (expiresIn r * 1000 - 60000) 0)]
     \<and> pending SessionTimeoutCb (snd (contextRegister now (Inr r) s)) = [now + 1800000]
     \<and> pending RefreshCb (logout s) = [] \<and> pending SessionTimeoutCb (logout s) = []
     \<and> pending RefreshCb (snd (loginWithTokens now tok rtok u s)) = pending RefreshCb s
     \<and> pending SessionTimeoutCb (snd (loginWithTokens now tok rtok u s)) = [now + 1800000]"
  using assms
  by (simp add: login_def contextRegister_def loginWithTokens_def logout_def Let_def
      pending_scheduleActivityTimeout pending_scheduleTokenRefresh tracked_scheduleTokenRefresh
      tracked_update timers_handleLogout pending_def [of _ "handleLogout s"])
    (simp add: pending_def)

end
